theory Spec2Isabelle
  imports Main "HOL-Library.Sublist"
begin

section \<open>The CGI client of querynator (\<^verbatim>\<open>query_api/cgi/cgi_api.py\<close>)\<close>

text \<open>
  The module is a pipeline of five functions: \<^verbatim>\<open>prepare_cgi_query_file\<close>,
  \<^verbatim>\<open>submit_query_cgi\<close>, \<^verbatim>\<open>status_done\<close>, \<^verbatim>\<open>download_cgi\<close> and
  \<^verbatim>\<open>add_cgi_metadata\<close>, run in that order by \<^verbatim>\<open>query_cgi\<close>. Each is embedded
  as a function on an explicit world (files, the remote service, the clock, the console)
  that returns an exception or a value together with the new world.
\<close>

subsection \<open>Exceptions\<close>

text \<open>
  \<open>fault\<close> lists what the environment raises by itself: the transport of
  \<^verbatim>\<open>requests\<close> (no connection, a timeout) and the disk (\<^verbatim>\<open>OSError\<close> and its
  subclasses on opening or writing a file). All of them derive from \<^verbatim>\<open>Exception\<close>.
  \<open>exn\<close> adds the exceptions the library calls and the module itself raise.
  \<^verbatim>\<open>SystemExit\<close> derives from \<^verbatim>\<open>BaseException\<close> only.
\<close>

datatype fault = ConnectionError | Timeout | OSError

datatype exn =
    Fault fault
  | HTTPError nat
  | JSONDecodeError
  | KeyError string
  | TypeError
  | ValueError
  | IndexError
  | FileNotFoundError string
  | BadZipFile
  | ParserError
  | SystemExit exn

fun is_Exception :: "exn \<Rightarrow> bool" where
  "is_Exception (SystemExit e) = False"
| "is_Exception e = True"

fun is_HTTPError :: "exn \<Rightarrow> bool" where
  "is_HTTPError (HTTPError s) = True"
| "is_HTTPError e = False"

text \<open>
  \<^verbatim>\<open>except requests.exceptions.HTTPError as err: raise SystemExit(err)\<close>: what leaves a
  \<^verbatim>\<open>try\<close> block with this handler when \<open>e\<close> is raised inside it.
\<close>

definition except_HTTPError :: "exn \<Rightarrow> exn" where
  "except_HTTPError e = (if is_HTTPError e then SystemExit e else e)"

subsection \<open>Values: JSON, tables, file contents, responses\<close>

text \<open>
  A JSON document as \<^verbatim>\<open>r.json()\<close> returns it. The keys of an object are distinct
  and in document order, as in the \<^verbatim>\<open>dict\<close> Python builds.
\<close>

datatype json =
    JNull
  | JBool bool
  | JNum int
  | JStr string
  | JArr "json list"
  | JObj "(string \<times> json) list"

text \<open>
  A pandas \<^verbatim>\<open>DataFrame\<close>: the column labels and the rows, every cell as pandas holds
  it after parsing. The row index is not modelled: the module never reads it and writes
  the table with \<^verbatim>\<open>index=False\<close>.
\<close>

record dataframe =
  columns :: "string list"
  rows :: "string list list"

text \<open>
  The bytes of a file or of a response body, classified by what the library decoders
  (\<^verbatim>\<open>pd.read_csv\<close>, \<^verbatim>\<open>ZipFile\<close>, \<^verbatim>\<open>r.json()\<close>) make of them: a
  tab-separated table, a zip archive with its members (name and data), a JSON document,
  or bytes that none of them decodes.
\<close>

datatype payload =
    Tsv dataframe
  | Zip "(string \<times> string) list"
  | Json json
  | Raw string

record response =
  status_code :: nat
  content :: payload

type_synonym headers = "(string \<times> string) list"
type_synonym params = "(string \<times> string) list"

text \<open>
  \<^verbatim>\<open>status_done\<close> builds a \<^verbatim>\<open>requests.Session\<close> and mounts an
  \<^verbatim>\<open>HTTPAdapter\<close> with a \<^verbatim>\<open>Retry\<close> strategy on it. Every request records the
  client that sent it: the module-level functions \<^verbatim>\<open>requests.get\<close> and
  \<^verbatim>\<open>requests.post\<close> (a one-shot session with the default adapter, which never
  re-sends), or a session with its mounted adapters.
\<close>

record retry =
  total :: nat
  status_forcelist :: "nat list"
  allowed_methods :: "string list"

text \<open>A new session has the default adapter (no retry) on both schemes;
  \<^verbatim>\<open>mount\<close> replaces the adapter of a prefix.\<close>

record session =
  adapters :: "(string \<times> retry) list"

definition default_retry :: retry where
  "default_retry = \<lparr>total = 0, status_forcelist = [], allowed_methods = []\<rparr>"

definition Session :: session where
  "Session = \<lparr>adapters = [(''https://'', default_retry), (''http://'', default_retry)]\<rparr>"

definition mount :: "session \<Rightarrow> string \<Rightarrow> retry \<Rightarrow> session" where
  "mount s pfx adapter =
     s\<lparr>adapters := (pfx, adapter) # filter (\<lambda>(p, a). p \<noteq> pfx) (adapters s)\<rparr>"

datatype client = Requests_api | Via_session session

subsection \<open>The world\<close>

text \<open>
  What the program does to its environment, in order: HTTP requests (client, URL,
  headers, query parameters or form data, uploaded files, timeout), sleeps, lines printed
  to the console and lines given to \<^verbatim>\<open>logger.info\<close>.
\<close>

datatype event =
    Get client string headers params "nat option"
  | Post client string headers "(string \<times> payload) list" params
  | Sleep nat
  | Print string
  | Log_info string

text \<open>
  \<open>files\<close> is the file system. \<open>net\<close> is the remote service: the outcomes of
  the HTTP requests to come, in order, each a transport fault or a response; when the list
  is used up the service is unreachable. \<open>disk\<close> is the outcomes of the operations
  to come that create or write a file, in order: \<open>None\<close> when the operation succeeds,
  a fault when it raises (a missing directory, a permission, a full disk); when the list
  is used up every operation succeeds. \<open>today\<close> is \<^verbatim>\<open>str(date.today())\<close>.
  \<open>trace\<close> is the events so far.
\<close>

record world =
  files :: "string \<rightharpoonup> payload"
  net :: "(fault + response) list"
  disk :: "fault option list"
  today :: string
  trace :: "event list"

type_synonym 'a result = "(exn + 'a) \<times> world"

definition emit :: "event \<Rightarrow> world \<Rightarrow> world" where
  "emit ev w = w\<lparr>trace := trace w @ [ev]\<rparr>"

definition print :: "string \<Rightarrow> world \<Rightarrow> world" where
  "print s w = emit (Print s) w"

definition logger_info :: "string \<Rightarrow> world \<Rightarrow> world" where
  "logger_info s w = emit (Log_info s) w"

definition time_sleep :: "nat \<Rightarrow> world \<Rightarrow> world" where
  "time_sleep n w = emit (Sleep n) w"

text \<open>The next outcome of the service, and of the disk.\<close>

definition transport :: "world \<Rightarrow> response result" where
  "transport w =
     (case net w of
        [] \<Rightarrow> (Inl (Fault ConnectionError), w)
      | Inl f # rest \<Rightarrow> (Inl (Fault f), w\<lparr>net := rest\<rparr>)
      | Inr r # rest \<Rightarrow> (Inr r, w\<lparr>net := rest\<rparr>))"

definition disk_op :: "world \<Rightarrow> unit result" where
  "disk_op w =
     (case disk w of
        [] \<Rightarrow> (Inr (), w)
      | None # rest \<Rightarrow> (Inr (), w\<lparr>disk := rest\<rparr>)
      | Some f # rest \<Rightarrow> (Inl (Fault f), w\<lparr>disk := rest\<rparr>))"

text \<open>\<^verbatim>\<open>requests.get(url, headers=..., params=..., timeout=...)\<close> and
  \<^verbatim>\<open>requests.post(url, headers=..., files=..., data=...)\<close>: one request, one outcome.\<close>

definition requests_get :: "string \<Rightarrow> headers \<Rightarrow> params \<Rightarrow> nat option \<Rightarrow> world \<Rightarrow> response result" where
  "requests_get url hdrs ps tmo w = transport (emit (Get Requests_api url hdrs ps tmo) w)"

definition requests_post ::
  "string \<Rightarrow> headers \<Rightarrow> (string \<times> payload) list \<Rightarrow> params \<Rightarrow> world \<Rightarrow> response result" where
  "requests_post url hdrs fls dat w = transport (emit (Post Requests_api url hdrs fls dat) w)"

text \<open>\<^verbatim>\<open>r.raise_for_status()\<close> raises \<^verbatim>\<open>HTTPError\<close> on a status from 400 to 599.\<close>

definition raise_for_status :: "response \<Rightarrow> exn + unit" where
  "raise_for_status r =
     (if 400 \<le> status_code r \<and> status_code r < 600 then Inl (HTTPError (status_code r))
      else Inr ())"

text \<open>\<^verbatim>\<open>r.json()\<close>.\<close>

definition json_of :: "response \<Rightarrow> exn + json" where
  "json_of r = (case content r of Json j \<Rightarrow> Inr j | _ \<Rightarrow> Inl JSONDecodeError)"

subsection \<open>Files\<close>

text \<open>\<^verbatim>\<open>open(path, 'rb')\<close>: the contents, or \<^verbatim>\<open>FileNotFoundError\<close>.\<close>

definition open_rb :: "string \<Rightarrow> world \<Rightarrow> exn + payload" where
  "open_rb path w =
     (case files w path of None \<Rightarrow> Inl (FileNotFoundError path) | Some c \<Rightarrow> Inr c)"

text \<open>\<^verbatim>\<open>open(path, 'w')\<close> and \<^verbatim>\<open>open(path, 'wb')\<close> create the file or empty it.\<close>

definition open_w :: "string \<Rightarrow> world \<Rightarrow> unit result" where
  "open_w path w =
     (case disk_op w of
        (Inl e, w1) \<Rightarrow> (Inl e, w1)
      | (Inr u, w1) \<Rightarrow> (Inr (), w1\<lparr>files := (files w1)(path \<mapsto> Raw [])\<rparr>))"

text \<open>\<^verbatim>\<open>fd.write(bytes)\<close> on a file just opened with \<^verbatim>\<open>'wb'\<close>: the file holds
  these bytes.\<close>

definition write_bytes :: "string \<Rightarrow> payload \<Rightarrow> world \<Rightarrow> unit result" where
  "write_bytes path c w =
     (case disk_op w of
        (Inl e, w1) \<Rightarrow> (Inl e, w1)
      | (Inr u, w1) \<Rightarrow> (Inr (), w1\<lparr>files := (files w1)(path \<mapsto> c)\<rparr>))"

text \<open>\<^verbatim>\<open>f.write(text)\<close> on a file opened with \<^verbatim>\<open>'w'\<close>: the text is appended.\<close>

definition write_text :: "string \<Rightarrow> string \<Rightarrow> world \<Rightarrow> unit result" where
  "write_text path s w =
     (case disk_op w of
        (Inl e, w1) \<Rightarrow> (Inl e, w1)
      | (Inr u, w1) \<Rightarrow>
          (Inr (), w1\<lparr>files := (files w1)(path \<mapsto>
             (case files w1 path of Some (Raw t) \<Rightarrow> Raw (t @ s) | _ \<Rightarrow> Raw s))\<rparr>))"

subsection \<open>Genome build\<close>

text \<open>
  \<^verbatim>\<open>
  def hg_assembly(genome):
      if genome == "GRCh37":
          genome = "hg19"
      if genome == "GRCh38":
          genome = "hg38"
      return genome
  \<close>
\<close>

definition hg_assembly :: "string \<Rightarrow> string" where
  "hg_assembly genome =
     (let genome = (if genome = ''GRCh37'' then ''hg19'' else genome);
          genome = (if genome = ''GRCh38'' then ''hg38'' else genome)
      in genome)"

subsection \<open>Input preparer\<close>

text \<open>\<^verbatim>\<open>pd.read_csv(input, sep="\t")\<close>.\<close>

definition read_csv :: "string \<Rightarrow> world \<Rightarrow> exn + dataframe" where
  "read_csv path w =
     (case files w path of
        None \<Rightarrow> Inl (FileNotFoundError path)
      | Some (Tsv df) \<Rightarrow> Inr df
      | Some other \<Rightarrow> Inl ParserError)"

text \<open>\<^verbatim>\<open>df.iloc[:, :n]\<close>: the first \<open>n\<close> columns, or all of them when there are
  fewer.\<close>

definition iloc_columns :: "nat \<Rightarrow> dataframe \<Rightarrow> dataframe" where
  "iloc_columns n df = \<lparr>columns = take n (columns df), rows = map (take n) (rows df)\<rparr>"

text \<open>
  \<^verbatim>\<open>df.duplicated()\<close> marks every row that equals an earlier one, and
  \<^verbatim>\<open>df.drop_duplicates()\<close> keeps the rows that are not marked, in their order.
\<close>

fun duplicated :: "'a list \<Rightarrow> 'a list \<Rightarrow> bool list" where
  "duplicated seen [] = []"
| "duplicated seen (r # rs) = (r \<in> set seen) # duplicated (r # seen) rs"

definition drop_duplicates :: "dataframe \<Rightarrow> dataframe" where
  "drop_duplicates df =
     df\<lparr>rows := map fst (filter (\<lambda>(r, d). \<not> d) (zip (rows df) (duplicated [] (rows df))))\<rparr>"

text \<open>\<^verbatim>\<open>len(df.iloc[:, 0])\<close>: the number of rows; \<^verbatim>\<open>IndexError\<close> when the table
  has no column.\<close>

definition len_iloc_0 :: "dataframe \<Rightarrow> exn + nat" where
  "len_iloc_0 df = (if columns df = [] then Inl IndexError else Inr (length (rows df)))"

text \<open>
  \<^verbatim>\<open>df[c] = values\<close>: \<^verbatim>\<open>ValueError\<close> when there are not as many values as rows;
  a column labelled \<open>c\<close> gets the values; when there is none, a new last column does.
\<close>

definition setitem :: "string \<Rightarrow> string list \<Rightarrow> dataframe \<Rightarrow> exn + dataframe" where
  "setitem c vals df =
     (if length vals \<noteq> length (rows df) then Inl ValueError
      else if c \<in> set (columns df) then
        Inr (df\<lparr>rows :=
          map2 (\<lambda>r v. map2 (\<lambda>label x. if label = c then v else x) (columns df) r)
            (rows df) vals\<rparr>)
      else
        Inr \<lparr>columns = columns df @ [c], rows = map2 (\<lambda>r v. r @ [v]) (rows df) vals\<rparr>)"

text \<open>\<^verbatim>\<open>df.to_csv(path, sep="\t", index=False)\<close>.\<close>

definition to_csv :: "dataframe \<Rightarrow> string \<Rightarrow> world \<Rightarrow> unit result" where
  "to_csv df path w =
     (case disk_op w of
        (Inl e, w1) \<Rightarrow> (Inl e, w1)
      | (Inr u, w1) \<Rightarrow> (Inr (), w1\<lparr>files := (files w1)(path \<mapsto> Tsv df)\<rparr>))"

text \<open>
  \<^verbatim>\<open>
  def prepare_cgi_query_file(input, output):
      cgi_file = pd.read_csv(input, sep="\t")
      cgi_file = cgi_file.iloc[:,:5].drop_duplicates()
      cgi_file['SAMPLE'] = [output] * len(cgi_file.iloc[:,0])
      cgi_file.to_csv(output + '.cgi_input.tsv', sep="\t", index=False)
      cgi_path = output + '.cgi_input.tsv'
      return cgi_path
  \<close>
\<close>

definition prepare_cgi_query_file :: "string \<Rightarrow> string \<Rightarrow> world \<Rightarrow> string result" where
  "prepare_cgi_query_file input output w =
     (case read_csv input w of
        Inl e \<Rightarrow> (Inl e, w)
      | Inr cgi_file \<Rightarrow>
          (let cgi_file = drop_duplicates (iloc_columns 5 cgi_file) in
           case len_iloc_0 cgi_file of
             Inl e \<Rightarrow> (Inl e, w)
           | Inr n \<Rightarrow>
               (case setitem ''SAMPLE'' (replicate n output) cgi_file of
                  Inl e \<Rightarrow> (Inl e, w)
                | Inr cgi_file \<Rightarrow>
                    (case to_csv cgi_file (output @ ''.cgi_input.tsv'') w of
                       (Inl e, w1) \<Rightarrow> (Inl e, w1)
                     | (Inr u, w1) \<Rightarrow>
                         (let cgi_path = output @ ''.cgi_input.tsv'' in (Inr cgi_path, w1))))))"

subsection \<open>Submitter\<close>

text \<open>The \<^verbatim>\<open>cancer\<close> argument is an object with a \<^verbatim>\<open>name\<close>.\<close>

record cancer_type =
  name :: string

text \<open>\<^verbatim>\<open>'https://www.cancergenomeinterpreter.org/api/v1/' + job_id\<close>: a string can
  only be concatenated with a string.\<close>

definition str_add :: "string \<Rightarrow> json \<Rightarrow> exn + string" where
  "str_add s j = (case j of JStr t \<Rightarrow> Inr (s @ t) | _ \<Rightarrow> Inl TypeError)"

text \<open>
  \<^verbatim>\<open>
  def submit_query_cgi(input, genome, cancer, headers, logger):
      logger.info('Querying REST API')
      genome = hg_assembly(genome)
      payload = {'cancer_type': cancer.name, 'title': 'CGI_query', 'reference': genome}
      try:
          r = requests.post('https://www.cancergenomeinterpreter.org/api/v1',
                      headers=headers,
                      files={ 'mutations': open(input, 'rb') },
                      data=payload)
          r.raise_for_status()
          job_id = r.json()
          url = 'https://www.cancergenomeinterpreter.org/api/v1/' + job_id
          return url
      except requests.exceptions.HTTPError as err:
          raise SystemExit(err)
  \<close>
  The logger is the trace of the world.
\<close>

definition submit_query_cgi ::
  "string \<Rightarrow> string \<Rightarrow> cancer_type \<Rightarrow> headers \<Rightarrow> world \<Rightarrow> string result" where
  "submit_query_cgi input genome cancer hdrs w =
     (let w0 = logger_info ''Querying REST API'' w;
          genome = hg_assembly genome;
          payload = [(''cancer_type'', name cancer), (''title'', ''CGI_query''),
                     (''reference'', genome)]
      in case open_rb input w0 of
           Inl e \<Rightarrow> (Inl (except_HTTPError e), w0)
         | Inr mutations \<Rightarrow>
             (case requests_post ''https://www.cancergenomeinterpreter.org/api/v1'' hdrs
                     [(''mutations'', mutations)] payload w0 of
                (Inl e, w1) \<Rightarrow> (Inl (except_HTTPError e), w1)
              | (Inr r, w1) \<Rightarrow>
                  (case raise_for_status r of
                     Inl e \<Rightarrow> (Inl (except_HTTPError e), w1)
                   | Inr u \<Rightarrow>
                       (case json_of r of
                          Inl e \<Rightarrow> (Inl (except_HTTPError e), w1)
                        | Inr job_id \<Rightarrow>
                            (case str_add ''https://www.cancergenomeinterpreter.org/api/v1/''
                                    job_id of
                               Inl e \<Rightarrow> (Inl (except_HTTPError e), w1)
                             | Inr url \<Rightarrow> (Inr url, w1))))))"

subsection \<open>Poller\<close>

text \<open>\<^verbatim>\<open>log['logs']\<close>: the value of the key in an object; \<^verbatim>\<open>KeyError\<close> when the
  object has no such key, \<^verbatim>\<open>TypeError\<close> when the document is not an object.\<close>

definition getitem :: "json \<Rightarrow> string \<Rightarrow> exn + json" where
  "getitem j k =
     (case j of
        JObj kvs \<Rightarrow> (case map_of kvs k of None \<Rightarrow> Inl (KeyError k) | Some v \<Rightarrow> Inr v)
      | _ \<Rightarrow> Inl TypeError)"

text \<open>\<^verbatim>\<open>''.join(v)\<close>: the strings of a list, the characters of a string and the keys
  of an object are concatenated; \<^verbatim>\<open>TypeError\<close> when an item is not a string or the
  value cannot be iterated.\<close>

fun join_strs :: "json list \<Rightarrow> exn + string" where
  "join_strs [] = Inr []"
| "join_strs (JStr s # js) = (case join_strs js of Inl e \<Rightarrow> Inl e | Inr t \<Rightarrow> Inr (s @ t))"
| "join_strs (j # js) = Inl TypeError"

definition str_join :: "json \<Rightarrow> exn + string" where
  "str_join v =
     (case v of
        JArr js \<Rightarrow> join_strs js
      | JStr s \<Rightarrow> Inr s
      | JObj kvs \<Rightarrow> Inr (concat (map fst kvs))
      | _ \<Rightarrow> Inl TypeError)"

text \<open>\<^verbatim>\<open>m in s\<close> on strings: \<open>m\<close> starts at some position of \<open>s\<close>.\<close>

fun str_in :: "string \<Rightarrow> string \<Rightarrow> bool" where
  "str_in m [] = (m = [])"
| "str_in m (c # cs) = (prefix m (c # cs) \<or> str_in m cs)"

text \<open>\<^verbatim>\<open>'Analysis done' in ''.join(log['logs'])\<close>; the loop runs while it is false.\<close>

definition analysis_done :: "json \<Rightarrow> exn + bool" where
  "analysis_done log =
     (case getitem log ''logs'' of
        Inl e \<Rightarrow> Inl e
      | Inr v \<Rightarrow> (case str_join v of Inl e \<Rightarrow> Inl e | Inr s \<Rightarrow> Inr (str_in ''Analysis done'' s)))"

text \<open>
  The \<^verbatim>\<open>try\<close> block of the loop, with its handler:
  \<^verbatim>\<open>
          try:
              r = requests.get(url, headers=headers, params=payload, timeout=5)
              r.raise_for_status()
              counter +=1
              log = r.json()
          except requests.exceptions.HTTPError as err:
              raise SystemExit(err)
  \<close>
  It returns the new \<open>counter\<close> and \<open>log\<close>.
\<close>

definition poll_try ::
  "string \<Rightarrow> headers \<Rightarrow> params \<Rightarrow> nat \<Rightarrow> world \<Rightarrow> (nat \<times> json) result" where
  "poll_try url hdrs payload counter w =
     (case requests_get url hdrs payload (Some 5) w of
        (Inl e, w1) \<Rightarrow> (Inl (except_HTTPError e), w1)
      | (Inr r, w1) \<Rightarrow>
          (case raise_for_status r of
             Inl e \<Rightarrow> (Inl (except_HTTPError e), w1)
           | Inr u \<Rightarrow>
               (let counter = counter + 1 in
                case json_of r of
                  Inl e \<Rightarrow> (Inl (except_HTTPError e), w1)
                | Inr log \<Rightarrow> (Inr (counter, log), w1))))"

lemma transport_net:
  "transport w = (Inr r, w1) \<Longrightarrow> length (net w1) < length (net w)"
  by (auto simp: transport_def split: list.splits sum.splits)

lemma poll_try_net:
  "poll_try url hdrs payload counter w = (Inr cl, w1) \<Longrightarrow> length (net w1) < length (net w)"
  by (auto simp: poll_try_def requests_get_def emit_def Let_def
      split: prod.splits sum.splits dest!: transport_net)

text \<open>
  The loop:
  \<^verbatim>\<open>
      while 'Analysis done' not in ''.join(log['logs']):
          if  counter == 5:
              print("Query took too looong :-(")
              break
          time.sleep(60)
          try: ...
  \<close>
\<close>

function poll_loop ::
  "string \<Rightarrow> headers \<Rightarrow> params \<Rightarrow> nat \<Rightarrow> json \<Rightarrow> world \<Rightarrow> unit result" where
  "poll_loop url hdrs payload counter log w =
     (case analysis_done log of
        Inl e \<Rightarrow> (Inl e, w)
      | Inr found \<Rightarrow>
          if found then (Inr (), w)
          else if counter = 5 then (Inr (), print ''Query took too looong :-('' w)
          else
            (case poll_try url hdrs payload counter (time_sleep 60 w) of
               (Inl e, w1) \<Rightarrow> (Inl e, w1)
             | (Inr (counter', log'), w1) \<Rightarrow> poll_loop url hdrs payload counter' log' w1))"
  by pat_completeness auto
termination
proof (relation "measure (\<lambda>(url, hdrs, payload, counter, log, w). length (net w))")
  show "wf (measure (\<lambda>(url, hdrs, payload, counter, log, w). length (net w)))"
    by simp
next
  fix url hdrs payload counter log w found x y w1 counter' log'
  assume "(x, w1) = poll_try url hdrs payload counter (time_sleep 60 w)" and "x = Inr y"
    and "(counter', log') = y"
  then have "poll_try url hdrs payload counter (time_sleep 60 w) = (Inr (counter', log'), w1)"
    by simp
  from poll_try_net [OF this]
  show "((url, hdrs, payload, counter', log', w1), (url, hdrs, payload, counter, log, w))
          \<in> measure (\<lambda>(url, hdrs, payload, counter, log, w). length (net w))"
    by (simp add: time_sleep_def emit_def)
qed

declare poll_loop.simps [simp del]

text \<open>
  \<^verbatim>\<open>
  def status_done(url, headers):
      counter = 0
      payload={'action':'logs'}
      retry_strategy = Retry(total=3, status_forcelist=[429, 500, 502, 503, 504],
                             allowed_methods=["HEAD", "GET", "OPTIONS"])
      adapter = HTTPAdapter(max_retries=retry_strategy)
      http = requests.Session()
      http.mount("https://", adapter)
      http.mount("http://", adapter)
      r = requests.get(url, headers=headers, params=payload, timeout=5)
      log = r.json()
      while ...
      return True
  \<close>
\<close>

definition retry_strategy :: retry where
  "retry_strategy =
     \<lparr>total = 3, status_forcelist = [429, 500, 502, 503, 504],
      allowed_methods = [''HEAD'', ''GET'', ''OPTIONS'']\<rparr>"

definition status_done :: "string \<Rightarrow> headers \<Rightarrow> world \<Rightarrow> bool result" where
  "status_done url hdrs w =
     (let counter = 0;
          payload = [(''action'', ''logs'')];
          adapter = retry_strategy;
          http = mount (mount Session ''https://'' adapter) ''http://'' adapter
      in case requests_get url hdrs payload (Some 5) w of
           (Inl e, w1) \<Rightarrow> (Inl e, w1)
         | (Inr r, w1) \<Rightarrow>
             (case json_of r of
                Inl e \<Rightarrow> (Inl e, w1)
              | Inr log \<Rightarrow>
                  (case poll_loop url hdrs payload counter log w1 of
                     (Inl e, w2) \<Rightarrow> (Inl e, w2)
                   | (Inr u, w2) \<Rightarrow> (Inr True, w2))))"

subsection \<open>Result fetcher\<close>

text \<open>
  \<^verbatim>\<open>
  def download_cgi(url, headers, output):
      try:
          payload={'action':'download'}
          r = requests.get(url, headers=headers, params=payload)
          with open(output + '.cgi_results.zip', 'wb') as fd:
              fd.write(r._content)
      except Exception:
          print("Ooops, sth went wrong with the download. Sorry for the inconvenience.")
  \<close>
  \<open>except_Exception\<close> is the handler: an \<^verbatim>\<open>Exception\<close> is printed away and the
  function returns; anything else leaves the function.
\<close>

definition except_Exception :: "exn \<Rightarrow> world \<Rightarrow> unit result" where
  "except_Exception e w =
     (if is_Exception e then
        (Inr (), print ''Ooops, sth went wrong with the download. Sorry for the inconvenience.'' w)
      else (Inl e, w))"

definition download_cgi :: "string \<Rightarrow> headers \<Rightarrow> string \<Rightarrow> world \<Rightarrow> unit result" where
  "download_cgi url hdrs output w =
     (let payload = [(''action'', ''download'')] in
      case requests_get url hdrs payload None w of
        (Inl e, w1) \<Rightarrow> except_Exception e w1
      | (Inr r, w1) \<Rightarrow>
          (case open_w (output @ ''.cgi_results.zip'') w1 of
             (Inl e, w2) \<Rightarrow> except_Exception e w2
           | (Inr fd, w2) \<Rightarrow>
               (case write_bytes (output @ ''.cgi_results.zip'') (content r) w2 of
                  (Inl e, w3) \<Rightarrow> except_Exception e w3
                | (Inr u, w3) \<Rightarrow> (Inr (), w3))))"

text \<open>\<^verbatim>\<open>ZipFile(path)\<close>: the members of the archive; \<^verbatim>\<open>FileNotFoundError\<close> when
  there is no such file, \<^verbatim>\<open>BadZipFile\<close> when the file is not a zip archive.\<close>

definition ZipFile :: "string \<Rightarrow> world \<Rightarrow> exn + (string \<times> string) list" where
  "ZipFile path w =
     (case files w path of
        None \<Rightarrow> Inl (FileNotFoundError path)
      | Some (Zip members) \<Rightarrow> Inr members
      | Some other \<Rightarrow> Inl BadZipFile)"

text \<open>\<^verbatim>\<open>.extractall(dir)\<close> writes every member below \<open>dir\<close>, one disk operation
  for the archive.\<close>

definition extractall :: "(string \<times> string) list \<Rightarrow> string \<Rightarrow> world \<Rightarrow> unit result" where
  "extractall members dir w =
     (case disk_op w of
        (Inl e, w1) \<Rightarrow> (Inl e, w1)
      | (Inr u, w1) \<Rightarrow>
          (Inr (), w1\<lparr>files :=
             fold (\<lambda>(member, data) fs. fs(dir @ ''/'' @ member \<mapsto> Raw data)) members (files w1)\<rparr>))"

text \<open>\<^verbatim>\<open>s[:-n]\<close> for a positive \<open>n\<close>: \<open>s\<close> without its last \<open>n\<close> characters,
  empty when \<open>s\<close> has no more than \<open>n\<close>.\<close>

definition slice_to_minus :: "nat \<Rightarrow> string \<Rightarrow> string" where
  "slice_to_minus n s = take (length s - n) s"

text \<open>
  \<^verbatim>\<open>
  def add_cgi_metadata(url, output):
      ZipFile(output + '.cgi_results.zip').extractall(output + '.cgi_results')
      with open(output + '.cgi_results' + '/metadata.txt', 'w') as f:
          f.write('CGI query date: ' +  str(date.today()))
          f.write('\nAPI version: ' + url[:-20])
          f.close()
  \<close>
\<close>

definition add_cgi_metadata :: "string \<Rightarrow> string \<Rightarrow> world \<Rightarrow> unit result" where
  "add_cgi_metadata url output w =
     (case ZipFile (output @ ''.cgi_results.zip'') w of
        Inl e \<Rightarrow> (Inl e, w)
      | Inr members \<Rightarrow>
          (case extractall members (output @ ''.cgi_results'') w of
             (Inl e, w1) \<Rightarrow> (Inl e, w1)
           | (Inr u, w1) \<Rightarrow>
               (let f = output @ ''.cgi_results'' @ ''/metadata.txt'' in
                case open_w f w1 of
                  (Inl e, w2) \<Rightarrow> (Inl e, w2)
                | (Inr u, w2) \<Rightarrow>
                    (case write_text f (''CGI query date: '' @ today w2) w2 of
                       (Inl e, w3) \<Rightarrow> (Inl e, w3)
                     | (Inr u, w3) \<Rightarrow>
                         (case write_text f
                                 (CHR 0x0A # ''API version: '' @ slice_to_minus 20 url) w3 of
                            (Inl e, w4) \<Rightarrow> (Inl e, w4)
                          | (Inr u, w4) \<Rightarrow> (Inr (), w4))))))"

subsection \<open>The pipeline\<close>

text \<open>
  \<^verbatim>\<open>
  def query_cgi(input, genome, cancer, headers, logger, output):
      cgi_file = prepare_cgi_query_file(input, output)
      url = submit_query_cgi(cgi_file, genome, cancer, headers, logger)
      done = status_done(url, headers)
      logger.info("CGI Query finished")
      if done:
          logger.info("Downloading CGI results")
          download_cgi(url, headers, output)
          add_cgi_metadata(url, output)
  \<close>
\<close>

definition query_cgi ::
  "string \<Rightarrow> string \<Rightarrow> cancer_type \<Rightarrow> headers \<Rightarrow> string \<Rightarrow> world \<Rightarrow> unit result" where
  "query_cgi input genome cancer hdrs output w =
     (case prepare_cgi_query_file input output w of
        (Inl e, w1) \<Rightarrow> (Inl e, w1)
      | (Inr cgi_file, w1) \<Rightarrow>
          (case submit_query_cgi cgi_file genome cancer hdrs w1 of
             (Inl e, w2) \<Rightarrow> (Inl e, w2)
           | (Inr url, w2) \<Rightarrow>
               (case status_done url hdrs w2 of
                  (Inl e, w3) \<Rightarrow> (Inl e, w3)
                | (Inr done, w3) \<Rightarrow>
                    (let w4 = logger_info ''CGI Query finished'' w3 in
                     if done then
                       (let w5 = logger_info ''Downloading CGI results'' w4 in
                        case download_cgi url hdrs output w5 of
                          (Inl e, w6) \<Rightarrow> (Inl e, w6)
                        | (Inr u, w6) \<Rightarrow> add_cgi_metadata url output w6)
                     else (Inr (), w4)))))"

text \<open>Responses that are failures: an HTTP error status on a poll and on the submission, and a body that is not JSON.\<close>

definition unavailable :: response where
  "unavailable = \<lparr>status_code = 503, content = Raw ''Service Unavailable''\<rparr>"


definition server_error :: response where
  "server_error = \<lparr>status_code = 500, content = Raw ''Internal Server Error''\<rparr>"

subsection \<open>Vocabulary of the properties\<close>

text \<open>The status of a response does not make \<^verbatim>\<open>raise_for_status\<close> raise.\<close>

definition http_ok :: "response \<Rightarrow> bool" where
  "http_ok r = (raise_for_status r = Inr ())"

text \<open>The response holds a log in which the loop test finds no completion marker.\<close>

definition no_marker :: "response \<Rightarrow> bool" where
  "no_marker r = (case json_of r of Inl e \<Rightarrow> False | Inr log \<Rightarrow> analysis_done log = Inr False)"

text \<open>The poll request and the download request, as events.\<close>

definition poll_get :: "string \<Rightarrow> headers \<Rightarrow> event" where
  "poll_get url hdrs = Get Requests_api url hdrs [(''action'', ''logs'')] (Some 5)"

definition download_get :: "string \<Rightarrow> headers \<Rightarrow> event" where
  "download_get url hdrs = Get Requests_api url hdrs [(''action'', ''download'')] None"

subsection \<open>Example worlds\<close>

text \<open>
  A variant table with one duplicated row, the responses of the service (the job is
  accepted, the analysis is running, the analysis is finished, the archive) and the worlds
  of a run on them: at the start, after the input is prepared, after the query is submitted.
\<close>

definition demo_table :: dataframe where
  "demo_table =
     \<lparr>columns = [''CHROM'', ''POS'', ''ID'', ''REF'', ''ALT''],
      rows = [[''chr1'', ''100'', ''rs1'', ''A'', ''T''],
              [''chr1'', ''100'', ''rs1'', ''A'', ''T''],
              [''chr2'', ''200'', ''rs2'', ''C'', ''G'']]\<rparr>"

definition demo_headers :: headers where
  "demo_headers = [(''Authorization'', ''user token'')]"

definition demo_url :: string where
  "demo_url = ''https://www.cancergenomeinterpreter.org/api/v1/0123456789abcdefghij''"

definition running :: response where
  "running = \<lparr>status_code = 200, content = Json (JObj [(''logs'', JArr [JStr ''Queued'', JStr ''Running''])])\<rparr>"

definition finished :: response where
  "finished = \<lparr>status_code = 200,
     content = Json (JObj [(''logs'', JArr [JStr ''Running'', JStr ''Analysis done (1 sample)''])])\<rparr>"

definition accepted :: response where
  "accepted = \<lparr>status_code = 200, content = Json (JStr ''0123456789abcdefghij'')\<rparr>"

definition archive :: response where
  "archive = \<lparr>status_code = 200, content = Zip [(''alterations.tsv'', ''data'')]\<rparr>"

definition demo_world :: "(fault + response) list \<Rightarrow> world" where
  "demo_world service =
     \<lparr>files = [''variants.tsv'' \<mapsto> Tsv demo_table], net = service, disk = [],
      today = ''2023-05-17'', trace = []\<rparr>"

definition demo_cancer :: cancer_type where
  "demo_cancer = \<lparr>name = ''BRCA''\<rparr>"

definition demo_prepared :: "(fault + response) list \<Rightarrow> world" where
  "demo_prepared service =
     (demo_world service)\<lparr>files := (files (demo_world service))(''sample1.cgi_input.tsv'' \<mapsto>
        Tsv \<lparr>columns = [''CHROM'', ''POS'', ''ID'', ''REF'', ''ALT'', ''SAMPLE''],
             rows = [[''chr1'', ''100'', ''rs1'', ''A'', ''T'', ''sample1''],
                     [''chr2'', ''200'', ''rs2'', ''C'', ''G'', ''sample1'']]\<rparr>)\<rparr>"

definition demo_submitted :: "(fault + response) list \<Rightarrow> world" where
  "demo_submitted service =
     (demo_prepared service)\<lparr>trace :=
        [Log_info ''Querying REST API'',
         Post Requests_api ''https://www.cancergenomeinterpreter.org/api/v1'' demo_headers
           [(''mutations'', Tsv \<lparr>columns = [''CHROM'', ''POS'', ''ID'', ''REF'', ''ALT'', ''SAMPLE''],
             rows = [[''chr1'', ''100'', ''rs1'', ''A'', ''T'', ''sample1''],
                     [''chr2'', ''200'', ''rs2'', ''C'', ''G'', ''sample1'']]\<rparr>)]
           [(''cancer_type'', ''BRCA''), (''title'', ''CGI_query''), (''reference'', ''hg38'')]]\<rparr>"

text \<open>The world after submission with an archive that an earlier run left behind.\<close>

definition stale_world :: "(fault + response) list \<Rightarrow> world" where
  "stale_world service =
     (demo_submitted service)\<lparr>files := (files (demo_submitted service))
        (''sample1.cgi_results.zip'' \<mapsto> Zip [(''alterations.tsv'', ''results of an earlier run'')])\<rparr>"

text \<open>A table whose first column is labelled \<^verbatim>\<open>SAMPLE\<close>, and a world holding it.\<close>

definition labelled_table :: dataframe where
  "labelled_table =
     \<lparr>columns = [''SAMPLE'', ''CHROM'', ''POS'', ''REF'', ''ALT''],
      rows = [[''tumour'', ''chr1'', ''100'', ''A'', ''T'']]\<rparr>"

definition labelled_world :: world where
  "labelled_world =
     \<lparr>files = [''variants.tsv'' \<mapsto> Tsv labelled_table], net = [], disk = [],
      today = ''2023-05-17'', trace = []\<rparr>"

text \<open>The rows that \<^verbatim>\<open>drop_duplicates\<close> keeps of \<open>rs\<close> when the rows \<open>seen\<close>
  came before.\<close>

definition first_rows :: "'a list \<Rightarrow> 'a list \<Rightarrow> 'a list" where
  "first_rows seen rs = map fst (filter (\<lambda>(r, d). \<not> d) (zip rs (duplicated seen rs)))"

text \<open>The submission request, as an event.\<close>

definition post_event :: "headers \<Rightarrow> payload \<Rightarrow> string \<Rightarrow> string \<Rightarrow> event" where
  "post_event hdrs mutations cancer_name genome =
     Post Requests_api ''https://www.cancergenomeinterpreter.org/api/v1'' hdrs
       [(''mutations'', mutations)]
       [(''cancer_type'', cancer_name), (''title'', ''CGI_query''), (''reference'', genome)]"

section \<open>Properties\<close>

subsection \<open>Auxiliary facts\<close>

lemma transport_Inl: "transport w = (Inl e, w1) \<Longrightarrow> \<exists>f. e = Fault f"
  by (auto simp: transport_def split: list.splits sum.splits)

lemma disk_op_Inl: "disk_op w = (Inl e, w1) \<Longrightarrow> \<exists>f. e = Fault f"
  by (auto simp: disk_op_def split: list.splits option.splits)

lemma requests_get_Inl: "requests_get url hdrs ps tmo w = (Inl e, w1) \<Longrightarrow> \<exists>f. e = Fault f"
  by (auto simp: requests_get_def dest: transport_Inl)

lemma open_w_Inl: "open_w path w = (Inl e, w1) \<Longrightarrow> \<exists>f. e = Fault f"
  by (auto simp: open_w_def split: prod.splits sum.splits dest: disk_op_Inl)

lemma write_bytes_Inl: "write_bytes path c w = (Inl e, w1) \<Longrightarrow> \<exists>f. e = Fault f"
  by (auto simp: write_bytes_def split: prod.splits sum.splits dest: disk_op_Inl)

lemma except_Exception_Fault: "except_Exception (Fault f) w = (Inr (), print ''Ooops, sth went wrong with the download. Sorry for the inconvenience.'' w)"
  by (simp add: except_Exception_def)

lemma download_cgi_returns: "fst (download_cgi url hdrs output w) = Inr ()"
  by (auto simp: download_cgi_def Let_def except_Exception_Fault split: prod.splits sum.splits
      dest!: requests_get_Inl open_w_Inl write_bytes_Inl)

lemma str_in_sublist: "str_in m s = sublist m s"
  by (induction s) (auto simp: sublist_Cons_right)

lemma str_in_iff: "str_in m s \<longleftrightarrow> (\<exists>pre post. s = pre @ m @ post)"
  by (simp add: str_in_sublist sublist_def)

lemma join_strs_map: "join_strs (map JStr ls) = Inr (concat ls)"
  by (induction ls) auto

lemma status_done_True: "status_done url hdrs w = (Inr b, w') \<Longrightarrow> b"
  by (auto simp: status_done_def Let_def split: prod.splits sum.splits)


lemma poll_try_quiet:
  assumes "net w = Inr r # rest" and "http_ok r" and "json_of r = Inr log"
  shows "poll_try url hdrs payload counter w =
           (Inr (counter + 1, log),
            w\<lparr>net := rest, trace := trace w @ [Get Requests_api url hdrs payload (Some 5)]\<rparr>)"
  using assms
  by (simp add: poll_try_def requests_get_def transport_def emit_def http_ok_def)

lemma poll_loop_quiet:
  assumes "net w = map Inr rs @ rest" and "counter + length rs = 5"
    and "\<forall>r\<in>set rs. http_ok r \<and> no_marker r" and "analysis_done log = Inr False"
  shows "poll_loop url hdrs payload counter log w =
           (Inr (),
            w\<lparr>net := rest,
              trace := trace w
                @ concat (replicate (length rs) [Sleep 60, Get Requests_api url hdrs payload (Some 5)])
                @ [Print ''Query took too looong :-('']\<rparr>)"
  using assms
proof (induction rs arbitrary: counter log w)
  case Nil
  then show ?case by (subst poll_loop.simps) (simp add: print_def emit_def)
next
  case (Cons r rs)
  from Cons.prems obtain log' where log': "json_of r = Inr log'" "analysis_done log' = Inr False"
    by (auto simp: no_marker_def split: sum.splits)
  let ?w1 = "(time_sleep 60 w)\<lparr>net := map Inr rs @ rest,
      trace := trace (time_sleep 60 w) @ [Get Requests_api url hdrs payload (Some 5)]\<rparr>"
  have step: "poll_try url hdrs payload counter (time_sleep 60 w) = (Inr (counter + 1, log'), ?w1)"
    using Cons.prems log' by (intro poll_try_quiet) (simp_all add: time_sleep_def emit_def)
  have "poll_loop url hdrs payload (counter + 1) log' ?w1 =
          (Inr (), ?w1\<lparr>net := rest,
              trace := trace ?w1
                @ concat (replicate (length rs) [Sleep 60, Get Requests_api url hdrs payload (Some 5)])
                @ [Print ''Query took too looong :-('']\<rparr>)"
    using Cons.prems log' by (intro Cons.IH) simp_all
  moreover have "counter \<noteq> 5" using Cons.prems by simp
  ultimately show ?case
    using Cons.prems(4) step by (subst poll_loop.simps) (simp add: time_sleep_def emit_def)
qed


lemma status_done_quiet:
  assumes "net w = map Inr (r0 # rs) @ rest" and "length rs = 5" and "no_marker r0"
    and "\<forall>r\<in>set rs. http_ok r \<and> no_marker r"
  shows "status_done url hdrs w =
           (Inr True,
            w\<lparr>net := rest,
              trace := trace w @ poll_get url hdrs
                # concat (replicate 5 [Sleep 60, poll_get url hdrs])
                @ [Print ''Query took too looong :-('']\<rparr>)"
proof -
  from assms(3) obtain log where log: "json_of r0 = Inr log" "analysis_done log = Inr False"
    by (auto simp: no_marker_def split: sum.splits)
  let ?w1 = "w\<lparr>trace := trace w @ [poll_get url hdrs], net := map Inr rs @ rest\<rparr>"
  have first: "requests_get url hdrs [(''action'', ''logs'')] (Some 5) w = (Inr r0, ?w1)"
    using assms(1) by (simp add: requests_get_def transport_def emit_def poll_get_def)
  have "poll_loop url hdrs [(''action'', ''logs'')] 0 log ?w1 =
          (Inr (), ?w1\<lparr>net := rest,
              trace := trace ?w1
                @ concat (replicate (length rs) [Sleep 60, Get Requests_api url hdrs [(''action'', ''logs'')] (Some 5)])
                @ [Print ''Query took too looong :-('']\<rparr>)"
    using assms(2,4) log(2) by (intro poll_loop_quiet) simp_all
  then show ?thesis
    using first log(1) assms(2) by (simp add: status_done_def poll_get_def Let_def)
qed



lemma disk_op_trace: "disk_op w = (x, w1) \<Longrightarrow> trace w1 = trace w"
  by (auto simp: disk_op_def split: list.splits option.splits)

lemma open_w_trace: "open_w path w = (x, w1) \<Longrightarrow> trace w1 = trace w"
  by (auto simp: open_w_def split: prod.splits sum.splits dest: disk_op_trace)

lemma write_text_trace: "write_text path s w = (x, w1) \<Longrightarrow> trace w1 = trace w"
  by (auto simp: write_text_def split: prod.splits sum.splits dest: disk_op_trace)

lemma write_bytes_trace: "write_bytes path c w = (x, w1) \<Longrightarrow> trace w1 = trace w"
  by (auto simp: write_bytes_def split: prod.splits sum.splits dest: disk_op_trace)

lemma extractall_trace: "extractall members dir w = (x, w1) \<Longrightarrow> trace w1 = trace w"
  by (auto simp: extractall_def split: prod.splits sum.splits dest: disk_op_trace)

lemma add_cgi_metadata_trace: "trace (snd (add_cgi_metadata url output w)) = trace w"
  by (auto simp: add_cgi_metadata_def Let_def split: prod.splits sum.splits
      dest!: extractall_trace open_w_trace write_text_trace)

lemma requests_get_trace:
  "requests_get url hdrs ps tmo w = (x, w1) \<Longrightarrow>
     trace w1 = trace w @ [Get Requests_api url hdrs ps tmo]"
  by (auto simp: requests_get_def transport_def emit_def split: list.splits sum.splits)

lemma download_cgi_trace:
  "\<exists>evs. trace (snd (download_cgi url hdrs output w)) = trace w @ download_get url hdrs # evs"
  by (auto simp: download_cgi_def Let_def split: prod.splits sum.splits
      dest!: requests_get_trace open_w_trace write_bytes_trace
      simp: except_Exception_def print_def emit_def download_get_def)

lemma query_cgi_after_poll:
  assumes "prepare_cgi_query_file input output w0 = (Inr cgi_file, w1)"
    and "submit_query_cgi cgi_file genome cancer hdrs w1 = (Inr url, w2)"
    and "status_done url hdrs w2 = (Inr b, w3)"
  shows "query_cgi input genome cancer hdrs output w0 =
           add_cgi_metadata url output
             (snd (download_cgi url hdrs output
                (logger_info ''Downloading CGI results'' (logger_info ''CGI Query finished'' w3))))"
proof -
  have b using assms(3) by (rule status_done_True)
  moreover obtain w6 where "download_cgi url hdrs output
      (logger_info ''Downloading CGI results'' (logger_info ''CGI Query finished'' w3)) = (Inr (), w6)"
    using download_cgi_returns by (metis prod.collapse)
  ultimately show ?thesis
    using assms by (simp add: query_cgi_def)
qed


lemmas demo = demo_cancer_def demo_prepared_def demo_submitted_def demo_table_def demo_headers_def demo_url_def running_def finished_def accepted_def
  archive_def demo_world_def

lemmas model = prepare_cgi_query_file_def read_csv_def iloc_columns_def drop_duplicates_def
  len_iloc_0_def setitem_def to_csv_def disk_op_def submit_query_cgi_def logger_info_def emit_def
  hg_assembly_def open_rb_def requests_post_def requests_get_def transport_def raise_for_status_def json_of_def str_add_def
  except_HTTPError_def

lemma demo_prepare:
  "prepare_cgi_query_file ''variants.tsv'' ''sample1'' (demo_world service) =
     (Inr ''sample1.cgi_input.tsv'', demo_prepared service)"
  by (simp add: demo model)

lemma demo_submit:
  "submit_query_cgi ''sample1.cgi_input.tsv'' ''GRCh38'' demo_cancer demo_headers
      (demo_prepared (Inr accepted # service)) = (Inr demo_url, demo_submitted service)"
  by (simp add: demo model)

lemma running_quiet: "http_ok running" "no_marker running"
  by (simp_all add: http_ok_def no_marker_def running_def raise_for_status_def json_of_def
      analysis_done_def getitem_def str_join_def)

lemmas poller = status_done_def requests_get_def transport_def emit_def json_of_def
  analysis_done_def getitem_def str_join_def poll_loop.simps poll_try_def time_sleep_def
  raise_for_status_def except_HTTPError_def print_def poll_get_def Let_def

lemma demo_status_done:
  "status_done demo_url demo_headers (demo_submitted [Inr running, Inr finished, Inr archive]) =
     (Inr True,
      (demo_submitted [Inr archive])\<lparr>trace := trace (demo_submitted [Inr archive]) @
         [poll_get demo_url demo_headers, Sleep 60, poll_get demo_url demo_headers]\<rparr>)"
  by (simp add: poller demo)






lemmas fetcher = download_cgi_def requests_get_def transport_def emit_def open_w_def
  write_bytes_def disk_op_def except_Exception_def print_def add_cgi_metadata_def ZipFile_def
  extractall_def write_text_def slice_to_minus_def Let_def

lemma poll_try_trace:
  "poll_try url hdrs payload counter w = (x, w1) \<Longrightarrow>
     trace w1 = trace w @ [Get Requests_api url hdrs payload (Some 5)]"
  by (auto simp: poll_try_def Let_def split: prod.splits sum.splits dest: requests_get_trace)

lemma poll_loop_trace:
  "\<exists>evs. trace (snd (poll_loop url hdrs payload counter log w)) = trace w @ evs"
proof (induction url hdrs payload counter log w rule: poll_loop.induct)
  case (1 url hdrs payload counter log w)
  show ?case
  proof (cases "analysis_done log")
    case (Inl e)
    then show ?thesis by (subst poll_loop.simps) simp
  next
    case (Inr found)
    show ?thesis
    proof (cases "found \<or> counter = 5")
      case True
      with Inr show ?thesis
        by (subst poll_loop.simps) (auto simp: print_def emit_def)
    next
      case False
      obtain x w1 where t: "poll_try url hdrs payload counter (time_sleep 60 w) = (x, w1)"
        by (cases "poll_try url hdrs payload counter (time_sleep 60 w)")
      from poll_try_trace [OF t]
      have tr: "trace w1 = trace w @ [Sleep 60, Get Requests_api url hdrs payload (Some 5)]"
        by (simp add: time_sleep_def emit_def)
      show ?thesis
      proof (cases x)
        case (Inl e)
        with Inr False t tr show ?thesis
          by (subst poll_loop.simps) simp
      next
        case (Inr cl)
        obtain counter' log' where cl: "cl = (counter', log')" by (cases cl)
        from "1.IH" [OF \<open>analysis_done log = Inr found\<close> _ _ t [symmetric] Inr cl [symmetric]] False
        obtain evs where
          "trace (snd (poll_loop url hdrs payload counter' log' w1)) = trace w1 @ evs"
          by auto
        with \<open>analysis_done log = Inr found\<close> False t tr Inr cl show ?thesis
          by (subst poll_loop.simps) simp
      qed
    qed
  qed
qed

lemma poll_loop_continues:
  assumes "analysis_done log = Inr False" and "counter \<noteq> 5"
  shows "\<exists>evs. trace (snd (poll_loop url hdrs payload counter log w)) =
           trace w @ Sleep 60 # Get Requests_api url hdrs payload (Some 5) # evs"
proof -
  obtain x w1 where t: "poll_try url hdrs payload counter (time_sleep 60 w) = (x, w1)"
    by (cases "poll_try url hdrs payload counter (time_sleep 60 w)")
  from poll_try_trace [OF t]
  have tr: "trace w1 = trace w @ [Sleep 60, Get Requests_api url hdrs payload (Some 5)]"
    by (simp add: time_sleep_def emit_def)
  show ?thesis
  proof (cases x)
    case (Inl e)
    with assms t tr show ?thesis by (subst poll_loop.simps) simp
  next
    case (Inr cl)
    obtain counter' log' where cl: "cl = (counter', log')" by (cases cl)
    obtain evs where "trace (snd (poll_loop url hdrs payload counter' log' w1)) = trace w1 @ evs"
      using poll_loop_trace by blast
    with assms t tr Inr cl show ?thesis by (subst poll_loop.simps) simp
  qed
qed

lemma analysis_done_strings:
  "getitem log ''logs'' = Inr (JArr (map JStr ls)) \<Longrightarrow>
     analysis_done log = Inr (\<exists>pre post. concat ls = pre @ ''Analysis done'' @ post)"
  by (simp add: analysis_done_def str_join_def join_strs_map str_in_iff)

lemma demo_logs:
  "getitem (JObj [(''logs'', JArr [JStr ''Queued'', JStr ''Running''])]) ''logs'' =
     Inr (JArr (map JStr [''Queued'', ''Running'']))"
  "getitem (JObj [(''logs'', JArr [JStr ''Running'', JStr ''Analysis done (1 sample)''])]) ''logs'' =
     Inr (JArr (map JStr [''Running'', ''Analysis done (1 sample)'']))"
  "\<nexists>pre post. concat [''Queued'', ''Running''] = pre @ ''Analysis done'' @ post"
  "\<exists>pre post. concat [''Running'', ''Analysis done (1 sample)''] = pre @ ''Analysis done'' @ post"
proof -
  show "getitem (JObj [(''logs'', JArr [JStr ''Queued'', JStr ''Running''])]) ''logs'' =
     Inr (JArr (map JStr [''Queued'', ''Running'']))"
    by (simp add: getitem_def)
  show "getitem (JObj [(''logs'', JArr [JStr ''Running'', JStr ''Analysis done (1 sample)''])]) ''logs'' =
     Inr (JArr (map JStr [''Running'', ''Analysis done (1 sample)'']))"
    by (simp add: getitem_def)
  have "\<not> str_in ''Analysis done'' (concat [''Queued'', ''Running''])"
    by simp
  then show "\<nexists>pre post. concat [''Queued'', ''Running''] = pre @ ''Analysis done'' @ post"
    unfolding str_in_iff .
  have "str_in ''Analysis done'' (concat [''Running'', ''Analysis done (1 sample)''])"
    by simp
  then show "\<exists>pre post. concat [''Running'', ''Analysis done (1 sample)''] = pre @ ''Analysis done'' @ post"
    unfolding str_in_iff .
qed

lemma first_rows_simps:
  "first_rows seen [] = []"
  "first_rows seen (r # rs) =
     (if r \<in> set seen then first_rows (r # seen) rs else r # first_rows (r # seen) rs)"
  by (simp_all add: first_rows_def)

lemma length_duplicated: "length (duplicated seen rs) = length rs"
  by (induction rs arbitrary: seen) simp_all

lemma set_first_rows: "set (first_rows seen rs) = set rs - set seen"
  by (induction rs arbitrary: seen) (auto simp: first_rows_simps)

lemma distinct_first_rows: "distinct (first_rows seen rs)"
  by (induction rs arbitrary: seen) (auto simp: first_rows_simps set_first_rows)

lemma subseq_first_rows: "subseq (first_rows seen rs) rs"
  by (induction rs arbitrary: seen) (auto simp: first_rows_simps)

lemma duplicated_nth:
  "i < length rs \<Longrightarrow>
     duplicated seen rs ! i = (rs ! i \<in> set seen \<or> (\<exists>j<i. rs ! j = rs ! i))"
proof (induction rs arbitrary: seen i)
  case Nil
  then show ?case by simp
next
  case (Cons r rs)
  show ?case
  proof (cases i)
    case 0
    then show ?thesis by simp
  next
    case (Suc k)
    with Cons.prems have k: "k < length rs" by simp
    have "(\<exists>j<Suc k. (r # rs) ! j = rs ! k) = (r = rs ! k \<or> (\<exists>j<k. rs ! j = rs ! k))"
      by (auto simp: less_Suc_eq_0_disj)
    with Cons.IH [OF k, of "r # seen"] Suc show ?thesis by auto
  qed
qed

lemma duplicated_map:
  "duplicated [] rs = map (\<lambda>i. \<exists>j<i. rs ! j = rs ! i) [0..<length rs]"
  by (rule nth_equalityI) (simp_all add: length_duplicated duplicated_nth)

lemma length_first_rows:
  "length (first_rows [] rs) =
     length rs - length (filter (\<lambda>i. \<exists>j<i. rs ! j = rs ! i) [0..<length rs])"
proof -
  let ?ds = "duplicated [] rs"
  have "length (first_rows [] rs) = length (filter (\<lambda>p. \<not> snd p) (zip rs ?ds))"
    by (simp add: first_rows_def case_prod_unfold)
  also have "\<dots> = length (filter (\<lambda>d. \<not> d) (map snd (zip rs ?ds)))"
    by (simp add: filter_map o_def)
  also have "\<dots> = length (filter (\<lambda>d. \<not> d) ?ds)"
    by (simp add: length_duplicated)
  also have "\<dots> = length ?ds - length (filter (\<lambda>d. d) ?ds)"
    using sum_length_filter_compl [of "\<lambda>d. d" ?ds] by simp
  also have "length (filter (\<lambda>d. d) ?ds) =
      length (filter (\<lambda>i. \<exists>j<i. rs ! j = rs ! i) [0..<length rs])"
    by (simp add: duplicated_map filter_map o_def)
  finally show ?thesis by (simp add: length_duplicated)
qed

lemma map2_replicate:
  "map2 f xs (replicate (length xs) v) = map (\<lambda>x. f x v) xs"
  by (induction xs) simp_all

lemma rows_drop_duplicates:
  "rows (drop_duplicates (iloc_columns n df)) = first_rows [] (map (take n) (rows df))"
  by (simp add: drop_duplicates_def iloc_columns_def first_rows_def)

lemma columns_drop_duplicates:
  "columns (drop_duplicates (iloc_columns n df)) = take n (columns df)"
  by (simp add: drop_duplicates_def iloc_columns_def)

subsection \<open>Genome-build normalisation\<close>

text \<open>
  C5. For every input string, \<open>hg_assembly\<close> maps \<open>GRCh37\<close> to \<open>hg19\<close> and
  \<open>GRCh38\<close> to \<open>hg38\<close>, and returns every other string unchanged.
\<close>

theorem hg_assembly_normalises:
  "hg_assembly ''GRCh37'' = ''hg19'' \<and> hg_assembly ''GRCh38'' = ''hg38'' \<and>
   (genome \<noteq> ''GRCh37'' \<and> genome \<noteq> ''GRCh38'' \<longrightarrow> hg_assembly genome = genome)"
  by (simp add: hg_assembly_def)

theorem hg_assembly_normalises_witness:
  "hg_assembly ''GRCh37'' = ''hg19'' \<and> hg_assembly ''GRCh38'' = ''hg38'' \<and>
   ''hg38'' \<noteq> ''GRCh37'' \<and> ''hg38'' \<noteq> ''GRCh38'' \<and> hg_assembly ''hg38'' = ''hg38''"
  using hg_assembly_normalises [of "''hg38''"] by simp

subsection \<open>The poller gives up after five retries\<close>

text \<open>
  C1. When the service answers the first poll and the five that follow with logs in which
  the completion marker does not occur (the five without an HTTP error status),
  \<open>status_done\<close> sends exactly five polls after the first, each after a sleep of 60,
  prints its message and returns \<open>True\<close> without raising; the six answers are used up
  and nothing else is. In \<open>query_cgi\<close> the run then goes on to \<open>download_cgi\<close>, whose
  request is the next event after the two log lines.
\<close>

theorem status_done_times_out_after_five_retries:
  assumes "net w = map Inr (r0 # rs) @ rest" and "length rs = 5" and "no_marker r0"
    and "\<forall>r\<in>set rs. http_ok r \<and> no_marker r"
  shows
    "let timed_out = w\<lparr>net := rest,
           trace := trace w @ poll_get url hdrs
             # concat (replicate 5 [Sleep 60, poll_get url hdrs])
             @ [Print ''Query took too looong :-('']\<rparr>;
         w5 = logger_info ''Downloading CGI results'' (logger_info ''CGI Query finished'' timed_out)
     in status_done url hdrs w = (Inr True, timed_out) \<and>
        (prepare_cgi_query_file input output w0 = (Inr cgi_file, w1) \<and>
         submit_query_cgi cgi_file genome cancer hdrs w1 = (Inr url, w) \<longrightarrow>
           query_cgi input genome cancer hdrs output w0 =
             add_cgi_metadata url output (snd (download_cgi url hdrs output w5)) \<and>
           (\<exists>evs. trace (snd (query_cgi input genome cancer hdrs output w0)) =
              trace w5 @ download_get url hdrs # evs))"
proof -
  define timed_out where "timed_out = w\<lparr>net := rest,
           trace := trace w @ poll_get url hdrs
             # concat (replicate 5 [Sleep 60, poll_get url hdrs])
             @ [Print ''Query took too looong :-('']\<rparr>"
  define w5 where
    "w5 = logger_info ''Downloading CGI results'' (logger_info ''CGI Query finished'' timed_out)"
  have poll: "status_done url hdrs w = (Inr True, timed_out)"
    unfolding timed_out_def using assms by (rule status_done_quiet)
  have "query_cgi input genome cancer hdrs output w0 =
          add_cgi_metadata url output (snd (download_cgi url hdrs output w5)) \<and>
        (\<exists>evs. trace (snd (query_cgi input genome cancer hdrs output w0)) =
              trace w5 @ download_get url hdrs # evs)"
    if "prepare_cgi_query_file input output w0 = (Inr cgi_file, w1)"
      and "submit_query_cgi cgi_file genome cancer hdrs w1 = (Inr url, w)"
  proof -
    have eq: "query_cgi input genome cancer hdrs output w0 =
          add_cgi_metadata url output (snd (download_cgi url hdrs output w5))"
      unfolding w5_def using that poll by (rule query_cgi_after_poll)
    moreover have "\<exists>evs. trace (snd (query_cgi input genome cancer hdrs output w0)) =
              trace w5 @ download_get url hdrs # evs"
      unfolding eq add_cgi_metadata_trace by (rule download_cgi_trace)
    ultimately show ?thesis by simp
  qed
  with poll show ?thesis
    unfolding Let_def timed_out_def [symmetric] w5_def [symmetric] by blast
qed

theorem status_done_times_out_after_five_retries_witness:
  "(let w = demo_submitted [Inr running, Inr running, Inr running, Inr running, Inr running,
              Inr running, Inr archive];
        timed_out = w\<lparr>net := [Inr archive],
           trace := trace w @ poll_get demo_url demo_headers
             # concat (replicate 5 [Sleep 60, poll_get demo_url demo_headers])
             @ [Print ''Query took too looong :-('']\<rparr>;
        w5 = logger_info ''Downloading CGI results'' (logger_info ''CGI Query finished'' timed_out);
        w0 = demo_world [Inr accepted, Inr running, Inr running, Inr running, Inr running,
              Inr running, Inr running, Inr archive]
    in status_done demo_url demo_headers w = (Inr True, timed_out) \<and>
       query_cgi ''variants.tsv'' ''GRCh38'' demo_cancer demo_headers ''sample1'' w0 =
         add_cgi_metadata demo_url ''sample1'' (snd (download_cgi demo_url demo_headers ''sample1'' w5)) \<and>
       (\<exists>evs. trace (snd (query_cgi ''variants.tsv'' ''GRCh38'' demo_cancer demo_headers ''sample1'' w0)) =
          trace w5 @ download_get demo_url demo_headers # evs))"
proof -
  let ?w = "demo_submitted [Inr running, Inr running, Inr running, Inr running, Inr running,
    Inr running, Inr archive]"
  have n: "net ?w = map Inr (running # [running, running, running, running, running]) @ [Inr archive]"
    by (simp add: demo)
  have l: "length [running, running, running, running, running] = 5" by simp
  have q: "\<forall>r\<in>set [running, running, running, running, running]. http_ok r \<and> no_marker r"
    by (simp add: running_quiet)
  show ?thesis
    unfolding Let_def
    using status_done_times_out_after_five_retries [unfolded Let_def, OF n l running_quiet(2) q,
        where url = demo_url and hdrs = demo_headers and input = "''variants.tsv''"
          and ?output = "''sample1''" and cgi_file = "''sample1.cgi_input.tsv''"
          and genome = "''GRCh38''" and cancer = demo_cancer
          and ?w0.0 = "demo_world [Inr accepted, Inr running, Inr running, Inr running, Inr running,
              Inr running, Inr running, Inr archive]"
          and ?w1.0 = "demo_prepared [Inr accepted, Inr running, Inr running, Inr running,
              Inr running, Inr running, Inr running, Inr archive]"]
      demo_prepare demo_submit
    by blast
qed

subsection \<open>No request of the poller goes through the retry session\<close>

text \<open>
  C2 says that the polls go through the session on which the retry adapter is mounted.
  In \<open>status_done\<close> they do not: the session \<open>http\<close> is built and never used, and
  every poll is sent by \<^verbatim>\<open>requests.get\<close>. On a run where the second poll is
  answered with status 503 (a status of the strategy's \<open>status_forcelist\<close>) the poll
  is not sent again: \<open>status_done\<close> raises \<^verbatim>\<open>SystemExit\<close> after two requests, and
  the answer that would have ended the polling is left unread.
\<close>

theorem status_done_503_not_retried:
  "status_done demo_url demo_headers (demo_submitted [Inr running, Inr unavailable, Inr finished]) =
     (Inl (SystemExit (HTTPError 503)),
      (demo_submitted [Inr finished])\<lparr>trace := trace (demo_submitted [Inr finished]) @
         [Get Requests_api demo_url demo_headers [(''action'', ''logs'')] (Some 5),
          Sleep 60,
          Get Requests_api demo_url demo_headers [(''action'', ''logs'')] (Some 5)]\<rparr>)"
  by (simp add: poller demo unavailable_def)

subsection \<open>The result of the poller\<close>

text \<open>
  C10. Whenever \<open>status_done\<close> returns, it returns \<open>True\<close>, also when it has given up;
  so in \<open>query_cgi\<close> the test of its result always passes: once \<open>status_done\<close> has
  returned, the run is \<open>download_cgi\<close> followed by \<open>add_cgi_metadata\<close>.
\<close>

theorem status_done_returns_True:
  "(status_done url hdrs w2 = (Inr b, w3) \<longrightarrow> b) \<and>
   (prepare_cgi_query_file input output w0 = (Inr cgi_file, w1) \<and>
    submit_query_cgi cgi_file genome cancer hdrs w1 = (Inr url, w2) \<and>
    status_done url hdrs w2 = (Inr b, w3) \<longrightarrow>
      query_cgi input genome cancer hdrs output w0 =
        add_cgi_metadata url output
          (snd (download_cgi url hdrs output
             (logger_info ''Downloading CGI results'' (logger_info ''CGI Query finished'' w3)))))"
  using status_done_True query_cgi_after_poll by blast

theorem status_done_returns_True_witness:
  "query_cgi ''variants.tsv'' ''GRCh38'' demo_cancer demo_headers ''sample1''
       (demo_world [Inr accepted, Inr running, Inr finished, Inr archive]) =
     add_cgi_metadata demo_url ''sample1''
       (snd (download_cgi demo_url demo_headers ''sample1''
          (logger_info ''Downloading CGI results'' (logger_info ''CGI Query finished''
            ((demo_submitted [Inr archive])\<lparr>trace := trace (demo_submitted [Inr archive]) @
               [poll_get demo_url demo_headers, Sleep 60, poll_get demo_url demo_headers]\<rparr>)))))"
  using status_done_returns_True [where b = True and url = demo_url and hdrs = demo_headers
      and ?w0.0 = "demo_world [Inr accepted, Inr running, Inr finished, Inr archive]"
      and ?w1.0 = "demo_prepared [Inr accepted, Inr running, Inr finished, Inr archive]"
      and ?w2.0 = "demo_submitted [Inr running, Inr finished, Inr archive]"
      and input = "''variants.tsv''" and ?output = "''sample1''"
      and cgi_file = "''sample1.cgi_input.tsv''" and genome = "''GRCh38''" and cancer = demo_cancer]
    demo_prepare demo_submit demo_status_done
  by blast

subsection \<open>A failure of the first poll\<close>




subsection \<open>An HTTP error on submission ends the run\<close>

text \<open>
  C4. When the service answers the submission with an HTTP error status (400 to 599),
  \<open>submit_query_cgi\<close> raises \<^verbatim>\<open>SystemExit\<close> instead of returning, and so does
  \<open>query_cgi\<close>: the submission is the only request of the run, no answer of the service
  after it is read, so neither a poll nor the download is attempted.
\<close>

theorem submit_http_error_exits:
  assumes "files w1 cgi_file = Some mutations" and "net w1 = Inr r # rest"
    and "400 \<le> status_code r \<and> status_code r < 600"
  shows
    "let stopped = w1\<lparr>net := rest,
           trace := trace w1 @ [Log_info ''Querying REST API'',
             post_event hdrs mutations (name cancer) (hg_assembly genome)]\<rparr>
     in submit_query_cgi cgi_file genome cancer hdrs w1 =
          (Inl (SystemExit (HTTPError (status_code r))), stopped) \<and>
        (prepare_cgi_query_file input output w0 = (Inr cgi_file, w1) \<longrightarrow>
           query_cgi input genome cancer hdrs output w0 =
             (Inl (SystemExit (HTTPError (status_code r))), stopped))"
proof -
  have "submit_query_cgi cgi_file genome cancer hdrs w1 =
          (Inl (SystemExit (HTTPError (status_code r))),
           w1\<lparr>net := rest,
             trace := trace w1 @ [Log_info ''Querying REST API'',
               post_event hdrs mutations (name cancer) (hg_assembly genome)]\<rparr>)"
    using assms
    by (simp add: submit_query_cgi_def logger_info_def emit_def open_rb_def requests_post_def
        transport_def raise_for_status_def except_HTTPError_def post_event_def Let_def)
  then show ?thesis
    by (simp add: query_cgi_def Let_def)
qed

theorem submit_http_error_exits_witness:
  "query_cgi ''variants.tsv'' ''GRCh38'' demo_cancer demo_headers ''sample1''
       (demo_world [Inr server_error, Inr finished, Inr archive]) =
     (Inl (SystemExit (HTTPError 500)), demo_submitted [Inr finished, Inr archive])"
proof -
  let ?w1 = "demo_prepared [Inr server_error, Inr finished, Inr archive]"
  let ?m = "Tsv \<lparr>columns = [''CHROM'', ''POS'', ''ID'', ''REF'', ''ALT'', ''SAMPLE''],
             rows = [[''chr1'', ''100'', ''rs1'', ''A'', ''T'', ''sample1''],
                     [''chr2'', ''200'', ''rs2'', ''C'', ''G'', ''sample1'']]\<rparr>"
  have f: "files ?w1 ''sample1.cgi_input.tsv'' = Some ?m"
    by (simp add: demo)
  have n: "net ?w1 = Inr server_error # [Inr finished, Inr archive]"
    by (simp add: demo)
  have s: "400 \<le> status_code server_error \<and> status_code server_error < 600"
    by (simp add: server_error_def)
  have c: "status_code server_error = 500"
    by (simp add: server_error_def)
  have w: "?w1\<lparr>net := [Inr finished, Inr archive],
           trace := trace ?w1 @ [Log_info ''Querying REST API'',
             post_event demo_headers ?m (name demo_cancer) (hg_assembly ''GRCh38'')]\<rparr> =
        demo_submitted [Inr finished, Inr archive]"
    by (simp add: demo post_event_def hg_assembly_def)
  show ?thesis
    using submit_http_error_exits [OF f n s, where hdrs = demo_headers and cancer = demo_cancer
        and genome = "''GRCh38''" and input = "''variants.tsv''" and ?output = "''sample1''"
        and ?w0.0 = "demo_world [Inr server_error, Inr finished, Inr archive]"]
      demo_prepare [of "[Inr server_error, Inr finished, Inr archive]"]
    by (simp add: Let_def w c)
qed

subsection \<open>The metadata file\<close>



subsection \<open>Failures of the download\<close>

text \<open>
  C3, as stated: every exception of the download request and of writing the archive is
  swallowed, and when no archive was written \<open>add_cgi_metadata\<close> fails with a
  missing-file error. The second half fails when an archive of an earlier run is still at
  \<^verbatim>\<open><output>.cgi_results.zip\<close>: the request fails, \<open>download_cgi\<close> returns without
  touching a file, and \<open>add_cgi_metadata\<close> extracts the old archive and returns.
\<close>

theorem stale_archive_is_extracted:
  "fst (download_cgi demo_url demo_headers ''sample1'' (stale_world [Inl ConnectionError])) = Inr () \<and>
   files (snd (download_cgi demo_url demo_headers ''sample1'' (stale_world [Inl ConnectionError]))) =
     files (stale_world [Inl ConnectionError]) \<and>
   fst (add_cgi_metadata demo_url ''sample1''
          (snd (download_cgi demo_url demo_headers ''sample1'' (stale_world [Inl ConnectionError])))) =
     Inr ()"
  by (simp add: fetcher stale_world_def demo)

text \<open>
  C3, amended. \<open>download_cgi\<close> returns normally in every world, whatever the request,
  the opening or the writing of the archive raises. When no file is at
  \<^verbatim>\<open><output>.cgi_results.zip\<close> after it has returned, \<open>add_cgi_metadata\<close> raises
  \<^verbatim>\<open>FileNotFoundError\<close> for that path and changes nothing. That is the case when
  the request fails and no archive was there before.
\<close>

theorem download_cgi_swallows:
  "fst (download_cgi url hdrs output w) = Inr () \<and>
   (files (snd (download_cgi url hdrs output w)) (output @ ''.cgi_results.zip'') = None \<longrightarrow>
      add_cgi_metadata url output (snd (download_cgi url hdrs output w)) =
        (Inl (FileNotFoundError (output @ ''.cgi_results.zip'')),
         snd (download_cgi url hdrs output w))) \<and>
   (files w (output @ ''.cgi_results.zip'') = None \<and> (net w = [] \<or> net w = Inl f # rest) \<longrightarrow>
      files (snd (download_cgi url hdrs output w)) (output @ ''.cgi_results.zip'') = None)"
proof (intro conjI impI)
  show "fst (download_cgi url hdrs output w) = Inr ()"
    by (rule download_cgi_returns)
next
  assume "files (snd (download_cgi url hdrs output w)) (output @ ''.cgi_results.zip'') = None"
  then show "add_cgi_metadata url output (snd (download_cgi url hdrs output w)) =
        (Inl (FileNotFoundError (output @ ''.cgi_results.zip'')),
         snd (download_cgi url hdrs output w))"
    by (simp add: add_cgi_metadata_def ZipFile_def)
next
  assume "files w (output @ ''.cgi_results.zip'') = None \<and> (net w = [] \<or> net w = Inl f # rest)"
  then show "files (snd (download_cgi url hdrs output w)) (output @ ''.cgi_results.zip'') = None"
    by (auto simp: download_cgi_def requests_get_def transport_def emit_def except_Exception_def
        print_def)
qed

theorem download_cgi_swallows_witness:
  "fst (download_cgi demo_url demo_headers ''sample1'' (demo_submitted [Inl ConnectionError])) = Inr () \<and>
   add_cgi_metadata demo_url ''sample1''
       (snd (download_cgi demo_url demo_headers ''sample1'' (demo_submitted [Inl ConnectionError]))) =
     (Inl (FileNotFoundError (''sample1'' @ ''.cgi_results.zip'')),
      snd (download_cgi demo_url demo_headers ''sample1'' (demo_submitted [Inl ConnectionError])))"
proof -
  have f: "files (demo_submitted [Inl ConnectionError]) (''sample1'' @ ''.cgi_results.zip'') = None"
    by (simp add: demo)
  have n: "net (demo_submitted [Inl ConnectionError]) = Inl ConnectionError # []"
    by (simp add: demo)
  show ?thesis
    using download_cgi_swallows [of demo_url demo_headers "''sample1''"
        "demo_submitted [Inl ConnectionError]" ConnectionError "[]"] f n
    by simp
qed

subsection \<open>The completion marker\<close>

text \<open>
  C7, as stated: on any poll the poller is done exactly when the marker occurs in the
  concatenation of the strings of the log array, and otherwise it continues polling. The
  last part fails on the sixth poll: its log has no marker, and the poller stops, leaving
  the next answer of the service unread.
\<close>

theorem sixth_poll_without_marker_stops:
  "no_marker running \<and>
   status_done demo_url demo_headers
       (demo_submitted [Inr running, Inr running, Inr running, Inr running, Inr running,
          Inr running, Inr finished]) =
     (Inr True,
      (demo_submitted [Inr finished])\<lparr>trace := trace (demo_submitted [Inr finished])
         @ poll_get demo_url demo_headers
         # concat (replicate 5 [Sleep 60, poll_get demo_url demo_headers])
         @ [Print ''Query took too looong :-('']\<rparr>)"
proof -
  let ?w = "demo_submitted [Inr running, Inr running, Inr running, Inr running, Inr running,
    Inr running, Inr finished]"
  have n: "net ?w = map Inr (running # [running, running, running, running, running]) @ [Inr finished]"
    by (simp add: demo)
  have l: "length [running, running, running, running, running] = 5" by simp
  have q: "\<forall>r\<in>set [running, running, running, running, running]. http_ok r \<and> no_marker r"
    by (simp add: running_quiet)
  have tr: "trace ?w = trace (demo_submitted [Inr finished])"
    by (simp add: demo)
  have w: "?w\<lparr>net := [Inr finished], trace := t\<rparr> = (demo_submitted [Inr finished])\<lparr>trace := t\<rparr>" for t
    by (simp add: demo)
  show ?thesis
    using status_done_quiet [OF n l running_quiet(2) q, of demo_url demo_headers] running_quiet(2)
    by (simp add: w tr)
qed

text \<open>
  C7, amended. \<open>poll_loop\<close> is the poller after a poll: \<open>log\<close> is the log just
  fetched and \<open>counter\<close> the number of retries made. When the log array holds strings,
  the poller is done (it returns at once, with no further event) exactly when
  \<^verbatim>\<open>Analysis done\<close> occurs somewhere in their concatenation, whatever stands before
  and after it. Otherwise it continues polling (it sleeps 60 and sends the next poll) as
  long as fewer than 5 retries have been made, and stops with its message once 5 have.
\<close>

theorem poll_loop_done_iff_marker:
  assumes "getitem log ''logs'' = Inr (JArr (map JStr ls))"
  shows
    "(poll_loop url hdrs payload counter log w = (Inr (), w)) =
       (\<exists>pre post. concat ls = pre @ ''Analysis done'' @ post) \<and>
     ((\<nexists>pre post. concat ls = pre @ ''Analysis done'' @ post) \<and> counter \<noteq> 5 \<longrightarrow>
        (\<exists>evs. trace (snd (poll_loop url hdrs payload counter log w)) =
           trace w @ Sleep 60 # Get Requests_api url hdrs payload (Some 5) # evs)) \<and>
     ((\<nexists>pre post. concat ls = pre @ ''Analysis done'' @ post) \<and> counter = 5 \<longrightarrow>
        poll_loop url hdrs payload counter log w =
          (Inr (), print ''Query took too looong :-('' w))"
proof -
  let ?marker = "\<exists>pre post. concat ls = pre @ ''Analysis done'' @ post"
  note a = analysis_done_strings [OF assms]
  have stops: "poll_loop url hdrs payload counter log w = (Inr (), w)" if ?marker
    using a that by (subst poll_loop.simps) simp
  have gives_up: "poll_loop url hdrs payload counter log w =
      (Inr (), print ''Query took too looong :-('' w)" if "\<not> ?marker" "counter = 5"
    using a that by (subst poll_loop.simps) simp
  have continues: "\<exists>evs. trace (snd (poll_loop url hdrs payload counter log w)) =
      trace w @ Sleep 60 # Get Requests_api url hdrs payload (Some 5) # evs"
    if "\<not> ?marker" "counter \<noteq> 5"
    using a that by (intro poll_loop_continues) simp_all
  have "poll_loop url hdrs payload counter log w \<noteq> (Inr (), w)" if "\<not> ?marker"
  proof (cases "counter = 5")
    case True
    have "trace (print ''Query took too looong :-('' w) \<noteq> trace w"
      by (simp add: print_def emit_def)
    then have "print ''Query took too looong :-('' w \<noteq> w" by auto
    with gives_up [OF that True] show ?thesis by simp
  next
    case False
    from continues [OF that False] show ?thesis by auto
  qed
  with stops gives_up continues show ?thesis by blast
qed

theorem poll_loop_done_iff_marker_witness:
  "poll_loop demo_url demo_headers [(''action'', ''logs'')] 1
       (JObj [(''logs'', JArr [JStr ''Running'', JStr ''Analysis done (1 sample)''])])
       (demo_submitted [Inr archive]) = (Inr (), demo_submitted [Inr archive]) \<and>
   poll_loop demo_url demo_headers [(''action'', ''logs'')] 0
       (JObj [(''logs'', JArr [JStr ''Queued'', JStr ''Running''])])
       (demo_submitted [Inr finished]) \<noteq> (Inr (), demo_submitted [Inr finished]) \<and>
   (\<exists>evs. trace (snd (poll_loop demo_url demo_headers [(''action'', ''logs'')] 0
        (JObj [(''logs'', JArr [JStr ''Queued'', JStr ''Running''])])
        (demo_submitted [Inr finished]))) =
      trace (demo_submitted [Inr finished]) @ Sleep 60
        # Get Requests_api demo_url demo_headers [(''action'', ''logs'')] (Some 5) # evs) \<and>
   poll_loop demo_url demo_headers [(''action'', ''logs'')] 5
       (JObj [(''logs'', JArr [JStr ''Queued'', JStr ''Running''])])
       (demo_submitted [Inr finished]) =
     (Inr (), print ''Query took too looong :-('' (demo_submitted [Inr finished]))"
  using poll_loop_done_iff_marker [OF demo_logs(2), of demo_url demo_headers
      "[(''action'', ''logs'')]" 1 "demo_submitted [Inr archive]"]
    poll_loop_done_iff_marker [OF demo_logs(1), of demo_url demo_headers
      "[(''action'', ''logs'')]" 0 "demo_submitted [Inr finished]"]
    poll_loop_done_iff_marker [OF demo_logs(1), of demo_url demo_headers
      "[(''action'', ''logs'')]" 5 "demo_submitted [Inr finished]"]
    demo_logs(3,4)
  by simp

subsection \<open>The prepared input file\<close>

text \<open>
  C6, as stated, holds for every table with at least five columns. It fails for a table
  that has a column labelled \<^verbatim>\<open>SAMPLE\<close> among its first five:
  \<^verbatim>\<open>cgi_file['SAMPLE'] = ...\<close> then overwrites that column instead of adding one, and
  the written table has five columns, one of them no longer the original.
\<close>

theorem sample_column_is_overwritten:
  "prepare_cgi_query_file ''variants.tsv'' ''sample1'' labelled_world =
     (Inr ''sample1.cgi_input.tsv'',
      labelled_world\<lparr>files := (files labelled_world)(''sample1.cgi_input.tsv'' \<mapsto>
         Tsv \<lparr>columns = [''SAMPLE'', ''CHROM'', ''POS'', ''REF'', ''ALT''],
              rows = [[''sample1'', ''chr1'', ''100'', ''A'', ''T'']]\<rparr>)\<rparr>)"
  by (simp add: labelled_world_def labelled_table_def model)

text \<open>
  C6, amended. For every table with at least five columns none of whose first five is
  labelled \<^verbatim>\<open>SAMPLE\<close>, and every sample name: unless writing the file raises a disk
  fault (which \<open>prepare_cgi_query_file\<close> lets through, writing nothing), it writes
  \<^verbatim>\<open><output>.cgi_input.tsv\<close> and returns its path. The written table has the first
  five column labels and then \<^verbatim>\<open>SAMPLE\<close>; its rows are the kept rows, each followed
  by the sample name. The kept rows are the input rows cut to five columns, without
  repetition, in their order; with \<open>N\<close> input rows of which \<open>D\<close> equal an earlier
  row on the five columns, \<open>N - D\<close> rows are kept.
\<close>

theorem prepare_cgi_query_file_table:
  assumes "files w input = Some (Tsv df)" and "5 \<le> length (columns df)"
    and "''SAMPLE'' \<notin> set (take 5 (columns df))"
  shows
    "let five = map (take 5) (rows df);
         kept = rows (drop_duplicates (iloc_columns 5 df));
         cgi_file = \<lparr>columns = take 5 (columns df) @ [''SAMPLE''],
                     rows = map (\<lambda>r. r @ [output]) kept\<rparr>
     in prepare_cgi_query_file input output w =
          (case disk_op w of
             (Inl e, w1) \<Rightarrow> (Inl e, w1)
           | (Inr u, w1) \<Rightarrow>
               (Inr (output @ ''.cgi_input.tsv''),
                w1\<lparr>files := (files w1)(output @ ''.cgi_input.tsv'' \<mapsto> Tsv cgi_file)\<rparr>)) \<and>
        distinct kept \<and> set kept = set five \<and> subseq kept five \<and>
        length kept =
          length five - length (filter (\<lambda>i. \<exists>j<i. five ! j = five ! i) [0..<length five])"
proof -
  let ?five = "map (take 5) (rows df)"
  let ?kept = "rows (drop_duplicates (iloc_columns 5 df))"
  have k: "?kept = first_rows [] ?five"
    by (rule rows_drop_duplicates)
  have c: "columns (drop_duplicates (iloc_columns 5 df)) = take 5 (columns df)"
    by (rule columns_drop_duplicates)
  have ne: "take 5 (columns df) \<noteq> []"
    using assms(2) by auto
  have s: "setitem ''SAMPLE'' (replicate (length ?kept) output) (drop_duplicates (iloc_columns 5 df)) =
      Inr \<lparr>columns = take 5 (columns df) @ [''SAMPLE''], rows = map (\<lambda>r. r @ [output]) ?kept\<rparr>"
    using assms(3) by (simp add: setitem_def c map2_replicate)
  have "prepare_cgi_query_file input output w =
          (case disk_op w of
             (Inl e, w1) \<Rightarrow> (Inl e, w1)
           | (Inr u, w1) \<Rightarrow>
               (Inr (output @ ''.cgi_input.tsv''),
                w1\<lparr>files := (files w1)(output @ ''.cgi_input.tsv'' \<mapsto>
                  Tsv \<lparr>columns = take 5 (columns df) @ [''SAMPLE''],
                       rows = map (\<lambda>r. r @ [output]) ?kept\<rparr>)\<rparr>))"
    using assms(1) ne s
    by (simp add: prepare_cgi_query_file_def read_csv_def len_iloc_0_def c to_csv_def Let_def
        split: prod.splits sum.splits)
  moreover have "distinct ?kept" "set ?kept = set ?five" "subseq ?kept ?five"
    unfolding k by (simp_all add: distinct_first_rows set_first_rows subseq_first_rows)
  moreover have "length ?kept =
      length ?five - length (filter (\<lambda>i. \<exists>j<i. ?five ! j = ?five ! i) [0..<length ?five])"
    unfolding k by (rule length_first_rows)
  ultimately show ?thesis
    unfolding Let_def by blast
qed

theorem prepare_cgi_query_file_table_witness:
  "prepare_cgi_query_file ''variants.tsv'' ''sample1'' (demo_world []) =
     (Inr ''sample1.cgi_input.tsv'', demo_prepared []) \<and>
   rows (drop_duplicates (iloc_columns 5 demo_table)) =
     [[''chr1'', ''100'', ''rs1'', ''A'', ''T''], [''chr2'', ''200'', ''rs2'', ''C'', ''G'']] \<and>
   length (rows (drop_duplicates (iloc_columns 5 demo_table))) =
     length (map (take 5) (rows demo_table)) -
       length (filter (\<lambda>i. \<exists>j<i. map (take 5) (rows demo_table) ! j = map (take 5) (rows demo_table) ! i)
         [0..<length (map (take 5) (rows demo_table))])"
proof -
  have f: "files (demo_world []) ''variants.tsv'' = Some (Tsv demo_table)"
    by (simp add: demo_world_def)
  have c: "5 \<le> length (columns demo_table)"
    by (simp add: demo_table_def)
  have n: "''SAMPLE'' \<notin> set (take 5 (columns demo_table))"
    by (simp add: demo_table_def)
  have k: "rows (drop_duplicates (iloc_columns 5 demo_table)) =
      [[''chr1'', ''100'', ''rs1'', ''A'', ''T''], [''chr2'', ''200'', ''rs2'', ''C'', ''G'']]"
    by (simp add: drop_duplicates_def iloc_columns_def demo_table_def)
  from prepare_cgi_query_file_table [OF f c n, of "''sample1''", unfolded Let_def]
  show ?thesis
    by (simp add: disk_op_def drop_duplicates_def iloc_columns_def demo_prepared_def
        demo_world_def demo_table_def)
qed

end
